theory Spec2Isabelle
  imports Main "HOL-Library.Sublist"
begin

section \<open>Python values used by \<^verbatim>\<open>plexapi/server.py\<close>\<close>

text \<open>
  A Python \<^verbatim>\<open>dict\<close> from \<^verbatim>\<open>str\<close> to \<^verbatim>\<open>str\<close> (HTTP headers, XML attributes, the
  configuration) is a map. A value that may be \<^verbatim>\<open>None\<close> is an \<open>option\<close>.
\<close>

type_synonym dict = "string \<rightharpoonup> string"

text \<open>
  The exceptions the module can let escape. \<open>BadRequest\<close> and \<open>NotFound\<close> are the two
  classes imported from \<^verbatim>\<open>plexapi.exceptions\<close>; the next seven are Python's built-in
  ones (subscripting \<^verbatim>\<open>None\<close>, an empty tuple, a missing key, an attribute of
  \<^verbatim>\<open>None\<close>, \<^verbatim>\<open>int()\<close> of a non-number, a malformed document, a string that has no
  UTF-8 encoding); the last two come from the HTTP library (a timeout, a refused
  connection). All of them derive from \<^verbatim>\<open>Exception\<close>.
\<close>

datatype error =
    BadRequest string
  | NotFound string
  | TypeError
  | IndexError
  | KeyError string
  | AttributeError
  | ValueError
  | ParseError
  | UnicodeEncodeError
  | Timeout
  | ConnectionError

text \<open>\<^verbatim>\<open>type(err).__name__\<close>\<close>

fun class_name :: "error \<Rightarrow> string" where
  "class_name (BadRequest _) = ''BadRequest''"
| "class_name (NotFound _) = ''NotFound''"
| "class_name TypeError = ''TypeError''"
| "class_name IndexError = ''IndexError''"
| "class_name (KeyError _) = ''KeyError''"
| "class_name AttributeError = ''AttributeError''"
| "class_name ValueError = ''ValueError''"
| "class_name ParseError = ''ParseError''"
| "class_name UnicodeEncodeError = ''UnicodeEncodeError''"
| "class_name Timeout = ''Timeout''"
| "class_name ConnectionError = ''ConnectionError''"

text \<open>Truthiness of an optional string: \<^verbatim>\<open>None\<close> and \<^verbatim>\<open>''\<close> are false.\<close>

fun truthy :: "string option \<Rightarrow> bool" where
  "truthy None = False"
| "truthy (Some s) = (s \<noteq> [])"

text \<open>\<^verbatim>\<open>a or b\<close> on optional strings.\<close>

definition py_or :: "string option \<Rightarrow> string option \<Rightarrow> string option" where
  "py_or a b = (if truthy a then a else b)"

text \<open>\<^verbatim>\<open>'%s' % v\<close> for a string or \<^verbatim>\<open>None\<close>.\<close>

fun pct_s :: "string option \<Rightarrow> string" where
  "pct_s None = ''None''"
| "pct_s (Some s) = s"

text \<open>\<^verbatim>\<open>'%s' % n\<close> for an integer: its decimal digits, with a minus sign when negative.\<close>

definition digit_char :: "nat \<Rightarrow> char" where
  "digit_char d = ''0123456789'' ! d"

function str_nat :: "nat \<Rightarrow> string" where
  "str_nat n = (if n < 10 then [digit_char n] else str_nat (n div 10) @ [digit_char (n mod 10)])"
  by pat_completeness auto
termination
  by (relation "measure (\<lambda>n. n)") auto

declare str_nat.simps [simp del]

definition str_int :: "int \<Rightarrow> string" where
  "str_int i = (if i < 0 then CHR ''-'' # str_nat (nat (- i)) else str_nat (nat i))"

text \<open>
  \<^verbatim>\<open>str.encode('utf8')\<close>. The text of a response is a \<^verbatim>\<open>str\<close> that is turned into
  bytes, so it is kept as its code points; \<open>string\<close> holds the bytes. A code point
  takes one to four bytes; a surrogate (U+D800 to U+DFFF) has no encoding and raises
  \<^verbatim>\<open>UnicodeEncodeError\<close>. A \<^verbatim>\<open>str\<close> holds no number from \<open>0x110000\<close> on; for such a number
  the function answers as for a surrogate.
\<close>

type_synonym unicode = "nat list"

definition encode_cp :: "nat \<Rightarrow> string option" where
  "encode_cp n =
     (if n < 0x80 then Some [char_of n]
      else if n < 0x800 then Some [char_of (0xC0 + n div 64), char_of (0x80 + n mod 64)]
      else if 0xD800 \<le> n \<and> n < 0xE000 then None
      else if n < 0x10000 then
        Some [char_of (0xE0 + n div 4096), char_of (0x80 + n div 64 mod 64),
              char_of (0x80 + n mod 64)]
      else if n < 0x110000 then
        Some [char_of (0xF0 + n div 262144), char_of (0x80 + n div 4096 mod 64),
              char_of (0x80 + n div 64 mod 64), char_of (0x80 + n mod 64)]
      else None)"

fun encode_utf8 :: "unicode \<Rightarrow> error + string" where
  "encode_utf8 [] = Inr []"
| "encode_utf8 (c # cs) =
     (case encode_cp c of
        None \<Rightarrow> Inl UnicodeEncodeError
      | Some bs \<Rightarrow>
          (case encode_utf8 cs of
             Inl e \<Rightarrow> Inl e
           | Inr rest \<Rightarrow> Inr (bs @ rest)))"

section \<open>The data model\<close>

text \<open>An \<^verbatim>\<open>xml.etree.ElementTree.Element\<close>: tag, attributes, children in order.\<close>

datatype node = Element (tag: string) (attrib: dict) (children: "node list")

text \<open>
  The fields of a \<^verbatim>\<open>requests.Response\<close> that \<^verbatim>\<open>query\<close> reads. \<^verbatim>\<open>response.text\<close> is the
  body as the HTTP library has decoded it, by the charset of the response.
\<close>

record response =
  status_code :: int
  response_url :: string
  response_text :: unicode

text \<open>
  A request method (\<^verbatim>\<open>session.get\<close>, \<^verbatim>\<open>session.put\<close>, ...): given the requests made so
  far, the URL and the headers, it raises or returns a response. The fixed
  \<^verbatim>\<open>timeout=TIMEOUT\<close> and the \<^verbatim>\<open>**kwargs\<close> are handed to it unchanged and play no part in
  what \<^verbatim>\<open>query\<close> itself decides, so they are left out.
\<close>

type_synonym request = "string \<times> dict"

type_synonym transport = "request list \<Rightarrow> string \<Rightarrow> dict \<Rightarrow> error + response"

text \<open>
  The state of the process outside a \<^verbatim>\<open>PlexServer\<close>: a store of dictionary objects,
  of which \<^verbatim>\<open>plexapi.BASE_HEADERS\<close> is one, and the requests handed to a request
  method so far.
\<close>

type_synonym ref = nat

record world =
  heap :: "ref \<Rightarrow> dict"
  sent :: "request list"

definition BASE_HEADERS :: ref where
  "BASE_HEADERS = 0"

text \<open>
  What the module imports from outside the repository: the status-code table of
  \<^verbatim>\<open>requests.status_codes\<close>, \<^verbatim>\<open>ElementTree.fromstring\<close> (on bytes), the built-in \<^verbatim>\<open>int\<close>
  on a string, the built-in \<^verbatim>\<open>str.lower\<close> (the case mapping of every cased character,
  which is Python's and not this module's), \<^verbatim>\<open>plexapi.CONFIG\<close> and the \<^verbatim>\<open>get\<close> of a new
  \<^verbatim>\<open>requests.Session()\<close>.
\<close>

record ext =
  codes :: "int \<rightharpoonup> string list"
  fromstring :: "string \<Rightarrow> error + node"
  int_of_str :: "string \<Rightarrow> error + int"
  str_lower :: "string \<Rightarrow> string"
  CONFIG :: dict
  Session_get :: transport

text \<open>
  Modelled from the spec: \<^verbatim>\<open>plexapi.library.Library\<close> and \<^verbatim>\<open>plexapi.client.PlexClient\<close>
  are not among the source files. The spec describes them as external collaborators
  that receive the connection and a response node; here each is the object its
  constructor call builds from its arguments (the back-reference to the server left
  out), constructed without a request, and a \<open>Library\<close> object is true in a condition.
\<close>

datatype Library = Library (library_data: "node option")

datatype PlexClient = PlexClient (client_baseurl: string) (client_data: node)

record PlexServer =
  baseurl :: "string option"
  token :: "string option"
  session :: transport
  friendlyName :: "string option"
  machineIdentifier :: "string option"
  myPlex :: bool
  myPlexMappingState :: "string option"
  myPlexSigninState :: "string option"
  myPlexSubscription :: "string option"
  myPlexUsername :: "string option"
  platform :: "string option"
  platformVersion :: "string option"
  transcoderActiveVideoSessions :: int
  updatedAt :: int
  version :: "string option"
  library_cache :: "Library option"

section \<open>The request pipeline\<close>

text \<open>\<^verbatim>\<open>PlexServer.url\<close> (lines 233-238).\<close>

definition url :: "PlexServer \<Rightarrow> string \<Rightarrow> string" where
  "url self path =
     (if truthy (token self) then
        (let delim = (if CHR ''?'' \<in> set path then ''&'' else ''?'')
         in pct_s (baseurl self) @ path @ delim @ ''X-Plex-Token='' @ pct_s (token self))
      else pct_s (baseurl self) @ path)"

text \<open>
  \<^verbatim>\<open>PlexServer.headers\<close> (lines 152-157): \<^verbatim>\<open>headers = BASE_HEADERS\<close> binds the module's
  dictionary object, the assignment writes into it, and the same object is returned.
\<close>

definition headers :: "PlexServer \<Rightarrow> world \<Rightarrow> ref \<times> world" where
  "headers self w =
     (let headers = BASE_HEADERS in
      case token self of
        None \<Rightarrow> (headers, w)
      | Some t \<Rightarrow>
          if t \<noteq> [] then
            (headers, w\<lparr>heap := (heap w)(headers := (heap w headers)(''X-Plex-Token'' \<mapsto> t))\<rparr>)
          else (headers, w))"

text \<open>
  Lines 203-205 of \<^verbatim>\<open>query\<close>: \<^verbatim>\<open>h = self.headers().copy()\<close>, then
  \<^verbatim>\<open>if headers: h.update(headers)\<close>. The copy is a new dictionary that only \<^verbatim>\<open>query\<close>
  holds, so it is a value here.
\<close>

definition request_headers :: "PlexServer \<Rightarrow> dict option \<Rightarrow> world \<Rightarrow> dict \<times> world" where
  "request_headers self hdrs w =
     (let (r, w1) = headers self w;
          h = heap w1 r
      in case hdrs of
           None \<Rightarrow> (h, w1)
         | Some d \<Rightarrow> if d \<noteq> Map.empty then (h ++ d, w1) else (h, w1))"

text \<open>
  Lines 208-212 of \<^verbatim>\<open>query\<close>: the status check and the parse.
  \<^verbatim>\<open>codes.get(status)\<close> is \<^verbatim>\<open>None\<close> for a status the table does not list, and
  \<^verbatim>\<open>None[0]\<close> raises \<^verbatim>\<open>TypeError\<close>. Line 211 encodes the text of the response to
  UTF-8 bytes; line 212 parses them unless there are none.
\<close>

definition handle_response :: "ext \<Rightarrow> response \<Rightarrow> error + node option" where
  "handle_response X r =
     (if status_code r \<notin> {200, 201} then
        (case codes X (status_code r) of
           None \<Rightarrow> Inl TypeError
         | Some [] \<Rightarrow> Inl IndexError
         | Some (codename # _) \<Rightarrow>
             Inl (BadRequest (''('' @ str_int (status_code r) @ '') '' @ codename @ '' ''
                              @ response_url r)))
      else
        (case encode_utf8 (response_text r) of
           Inl e \<Rightarrow> Inl e
         | Inr data \<Rightarrow>
             if data \<noteq> [] then
               (case fromstring X data of Inl e \<Rightarrow> Inl e | Inr n \<Rightarrow> Inr (Some n))
             else Inr None))"

text \<open>
  \<^verbatim>\<open>PlexServer.query\<close> (lines 183-212). The result is the exception raised or the value
  returned, with the world after the call: \<^verbatim>\<open>headers()\<close> has run and the request has
  been handed to the method, whatever the method then does. The calls to \<^verbatim>\<open>log.info\<close>
  here and to \<^verbatim>\<open>log.error\<close> in \<^verbatim>\<open>_connect\<close> write to the log only and are left out.
\<close>

definition query ::
  "ext \<Rightarrow> PlexServer \<Rightarrow> string \<Rightarrow> transport option \<Rightarrow> dict option \<Rightarrow> world
     \<Rightarrow> (error + node option) \<times> world" where
  "query X self path method hdrs w =
     (let u = url self path;
          m = (case method of None \<Rightarrow> session self | Some f \<Rightarrow> f);
          (h, w1) = request_headers self hdrs w;
          w2 = w1\<lparr>sent := sent w1 @ [(u, h)]\<rparr>
      in case m (sent w1) u h of
           Inl e \<Rightarrow> (Inl e, w2)
         | Inr r \<Rightarrow> (handle_response X r, w2))"

text \<open>\<^verbatim>\<open>PlexServer._connect\<close> (lines 89-95): any exception of \<^verbatim>\<open>query('/')\<close> is replaced.\<close>

definition connect :: "ext \<Rightarrow> PlexServer \<Rightarrow> world \<Rightarrow> (error + node option) \<times> world" where
  "connect X self w =
     (case query X self ''/'' None None w of
        (Inl err, w') \<Rightarrow> (Inl (NotFound (''No server found at: '' @ pct_s (baseurl self))), w')
      | (Inr data, w') \<Rightarrow> (Inr data, w'))"

section \<open>The facade\<close>

text \<open>
  The attribute reads of \<^verbatim>\<open>PlexServer.__init__\<close> (lines 71-83). \<^verbatim>\<open>attrib.get(k)\<close> is
  \<^verbatim>\<open>None\<close> for a missing key; \<^verbatim>\<open>int(attrib.get(k, 0))\<close> is \<^verbatim>\<open>int(0)\<close> for a missing
  key and \<^verbatim>\<open>int\<close> of the string otherwise, which may raise; \<^verbatim>\<open>bool\<close> of an optional
  string is its truthiness.
\<close>

definition load_attributes :: "ext \<Rightarrow> PlexServer \<Rightarrow> node \<Rightarrow> error + PlexServer" where
  "load_attributes X self data =
     (case (case attrib data ''transcoderActiveVideoSessions'' of
              None \<Rightarrow> Inr 0
            | Some v \<Rightarrow> int_of_str X v) of
        Inl e \<Rightarrow> Inl e
      | Inr sessions \<Rightarrow>
          (case (case attrib data ''updatedAt'' of
                   None \<Rightarrow> Inr 0
                 | Some v \<Rightarrow> int_of_str X v) of
             Inl e \<Rightarrow> Inl e
           | Inr updated \<Rightarrow>
               Inr (self\<lparr>friendlyName := attrib data ''friendlyName'',
                          machineIdentifier := attrib data ''machineIdentifier'',
                          myPlex := truthy (attrib data ''myPlex''),
                          myPlexMappingState := attrib data ''myPlexMappingState'',
                          myPlexSigninState := attrib data ''myPlexSigninState'',
                          myPlexSubscription := attrib data ''myPlexSubscription'',
                          myPlexUsername := attrib data ''myPlexUsername'',
                          platform := attrib data ''platform'',
                          platformVersion := attrib data ''platformVersion'',
                          transcoderActiveVideoSessions := sessions,
                          updatedAt := updated,
                          version := attrib data ''version'',
                          library_cache := None\<rparr>)))"

text \<open>
  \<^verbatim>\<open>PlexServer.__init__\<close> (lines 57-83). Registering the token with the log filter
  touches only the logging, which is not modelled. When \<^verbatim>\<open>_connect\<close> returns \<^verbatim>\<open>None\<close>
  (an empty body), \<^verbatim>\<open>data.attrib\<close> raises \<^verbatim>\<open>AttributeError\<close>.
\<close>

definition PlexServer_init ::
  "ext \<Rightarrow> string option \<Rightarrow> string option \<Rightarrow> transport option \<Rightarrow> world
     \<Rightarrow> (error + PlexServer) \<times> world" where
  "PlexServer_init X baseurl0 token0 session0 w =
     (let self = \<lparr>baseurl = py_or baseurl0 (CONFIG X ''authentication.baseurl''),
                  token = py_or token0 (CONFIG X ''authentication.token''),
                  session = (case session0 of None \<Rightarrow> Session_get X | Some s \<Rightarrow> s),
                  friendlyName = None, machineIdentifier = None, myPlex = False,
                  myPlexMappingState = None, myPlexSigninState = None,
                  myPlexSubscription = None, myPlexUsername = None, platform = None,
                  platformVersion = None, transcoderActiveVideoSessions = 0,
                  updatedAt = 0, version = None, library_cache = None\<rparr>
      in case connect X self w of
           (Inl e, w') \<Rightarrow> (Inl e, w')
         | (Inr None, w') \<Rightarrow> (Inl AttributeError, w')
         | (Inr (Some data), w') \<Rightarrow> (load_attributes X self data, w'))"

text \<open>
  The \<^verbatim>\<open>library\<close> property (lines 97-102). It returns the library, the server with its
  cache as the call leaves it, and the world.
\<close>

definition library ::
  "ext \<Rightarrow> PlexServer \<Rightarrow> world \<Rightarrow> (error + Library) \<times> PlexServer \<times> world" where
  "library X self w =
     (case library_cache self of
        Some lib \<Rightarrow> (Inr lib, self, w)
      | None \<Rightarrow>
          (case query X self ''/library/'' None None w of
             (Inl e, w') \<Rightarrow> (Inl e, self, w')
           | (Inr data, w') \<Rightarrow>
               (let lib = Library data
                in (Inr lib, self\<lparr>library_cache := Some lib\<rparr>, w'))))"

text \<open>
  The descriptor built for one element (lines 118-119 and 137-138):
  \<^verbatim>\<open>elem.attrib['host']\<close> and \<^verbatim>\<open>elem.attrib['port']\<close> raise \<^verbatim>\<open>KeyError\<close> on a missing key.
\<close>

definition make_client :: "node \<Rightarrow> error + PlexClient" where
  "make_client elem =
     (case attrib elem ''host'' of
        None \<Rightarrow> Inl (KeyError ''host'')
      | Some host \<Rightarrow>
          (case attrib elem ''port'' of
             None \<Rightarrow> Inl (KeyError ''port'')
           | Some port \<Rightarrow> Inr (PlexClient (''http://'' @ host @ '':'' @ port) elem)))"

text \<open>The loop of \<^verbatim>\<open>clients\<close> (lines 116-120), \<open>items\<close> being the list built so far.\<close>

fun clients_loop :: "node list \<Rightarrow> PlexClient list \<Rightarrow> error + PlexClient list" where
  "clients_loop [] items = Inr items"
| "clients_loop (elem # rest) items =
     (case make_client elem of
        Inl e \<Rightarrow> Inl e
      | Inr c \<Rightarrow> clients_loop rest (items @ [c]))"

text \<open>
  \<^verbatim>\<open>PlexServer.clients\<close> (lines 109-120). Iterating over \<^verbatim>\<open>None\<close> (an empty body) raises
  \<^verbatim>\<open>TypeError\<close>; iterating over an element yields its children.
\<close>

definition clients :: "ext \<Rightarrow> PlexServer \<Rightarrow> world \<Rightarrow> (error + PlexClient list) \<times> world" where
  "clients X self w =
     (case query X self ''/clients'' None None w of
        (Inl e, w') \<Rightarrow> (Inl e, w')
      | (Inr None, w') \<Rightarrow> (Inl TypeError, w')
      | (Inr (Some root), w') \<Rightarrow> (clients_loop (children root) [], w'))"

text \<open>
  The loop of \<^verbatim>\<open>client\<close> (lines 135-139): \<^verbatim>\<open>elem.attrib.get('name')\<close> is \<^verbatim>\<open>None\<close> for an
  element without a name, and \<^verbatim>\<open>None.lower()\<close> raises \<^verbatim>\<open>AttributeError\<close>.
\<close>

fun client_loop :: "ext \<Rightarrow> string \<Rightarrow> node list \<Rightarrow> error + PlexClient" where
  "client_loop X name [] = Inl (NotFound (''Unknown client name: '' @ name))"
| "client_loop X name (elem # rest) =
     (case attrib elem ''name'' of
        None \<Rightarrow> Inl AttributeError
      | Some n \<Rightarrow>
          if str_lower X n = str_lower X name then make_client elem
          else client_loop X name rest)"

text \<open>\<^verbatim>\<open>PlexServer.client\<close> (lines 122-139).\<close>

definition client ::
  "ext \<Rightarrow> PlexServer \<Rightarrow> string \<Rightarrow> world \<Rightarrow> (error + PlexClient) \<times> world" where
  "client X self name w =
     (case query X self ''/clients'' None None w of
        (Inl e, w') \<Rightarrow> (Inl e, w')
      | (Inr None, w') \<Rightarrow> (Inl TypeError, w')
      | (Inr (Some root), w') \<Rightarrow> (client_loop X name (children root), w'))"

section \<open>Sample inputs\<close>

text \<open>The text of an ASCII document: its code points are the values of its bytes.\<close>

definition ascii :: "string \<Rightarrow> unicode" where
  "ascii s = map of_char s"

text \<open>
  A request method that answers every request with the given status and text and
  reports the requested URL as the response's URL; the same for an ASCII document;
  and a method that refuses the connection.
\<close>

definition respond_text :: "int \<Rightarrow> unicode \<Rightarrow> transport" where
  "respond_text status t =
     (\<lambda>hist u h. Inr \<lparr>status_code = status, response_url = u, response_text = t\<rparr>)"

definition respond :: "int \<Rightarrow> string \<Rightarrow> transport" where
  "respond status body = respond_text status (ascii body)"

definition refuse :: transport where
  "refuse = (\<lambda>hist u h. Inl ConnectionError)"

text \<open>A server object as \<^verbatim>\<open>__init__\<close> leaves it, at the default base URL.\<close>

definition server_at :: "string option \<Rightarrow> transport \<Rightarrow> PlexServer" where
  "server_at tok m =
     \<lparr>baseurl = Some ''http://localhost:32400'', token = tok, session = m,
      friendlyName = None, machineIdentifier = None, myPlex = False,
      myPlexMappingState = None, myPlexSigninState = None, myPlexSubscription = None,
      myPlexUsername = None, platform = None, platformVersion = None,
      transcoderActiveVideoSessions = 0, updatedAt = 0, version = None,
      library_cache = None\<rparr>"

text \<open>A world in which \<^verbatim>\<open>BASE_HEADERS\<close> holds one header and no request has been made.\<close>

definition world0 :: world where
  "world0 = \<lparr>heap = (\<lambda>_. Map.empty)(BASE_HEADERS := [''X-Plex-Platform'' \<mapsto> ''Linux'']),
             sent = []\<rparr>"

text \<open>Four elements of a client listing, and a root element.\<close>

definition elem_bob :: node where
  "elem_bob = Element ''Server''
     [''name'' \<mapsto> ''BOB'', ''host'' \<mapsto> ''10.0.0.5'', ''port'' \<mapsto> ''32500''] []"

definition elem_tv :: node where
  "elem_tv = Element ''Server''
     [''name'' \<mapsto> ''tv'', ''host'' \<mapsto> ''10.0.0.7'', ''port'' \<mapsto> ''3005''] []"

definition elem_nohost :: node where
  "elem_nohost = Element ''Server'' [''name'' \<mapsto> ''pad'', ''port'' \<mapsto> ''32500''] []"

definition elem_noname :: node where
  "elem_noname = Element ''Server'' [''host'' \<mapsto> ''10.0.0.9'', ''port'' \<mapsto> ''32500''] []"

definition root_elem :: node where
  "root_elem = Element ''MediaContainer''
     [''friendlyName'' \<mapsto> ''s-PC'', ''version'' \<mapsto> ''1.3.2''] []"

text \<open>
  Stand-ins for the imported parts: four rows of the status-code table (520 is not a
  row of it), a parser that knows four documents, an \<^verbatim>\<open>int\<close> that knows two
  numerals, a \<^verbatim>\<open>lower\<close> that knows the names used below, an empty configuration.
  The second stand-in differs in its parser, which answers with an element whose tag is
  the bytes it was handed.
\<close>

definition ext0 :: ext where
  "ext0 =
     \<lparr>codes = [200 \<mapsto> [''ok'', ''okay'', ''all_ok''], 201 \<mapsto> [''created''],
               404 \<mapsto> [''not_found'', ''-o-''], 500 \<mapsto> [''internal_server_error'']],
      fromstring = (\<lambda>s. case map_of
          [(''<clients/>'', Element ''MediaContainer'' Map.empty [elem_tv, elem_bob]),
           (''<broken/>'', Element ''MediaContainer'' Map.empty [elem_tv, elem_nohost]),
           (''<nameless/>'',
            Element ''MediaContainer'' Map.empty [elem_tv, elem_noname, elem_bob]),
           (''<root/>'', root_elem)] s of
            None \<Rightarrow> Inl ParseError
          | Some n \<Rightarrow> Inr n),
      int_of_str = (\<lambda>s. case map_of [(''0'', 0), (''2'', 2)] s of
            None \<Rightarrow> Inl ValueError
          | Some i \<Rightarrow> Inr i),
      str_lower = (\<lambda>s. case map_of
          [(''BOB'', ''bob''), (''Bob'', ''bob''), (''Nonexistent'', ''nonexistent'')] s of
            None \<Rightarrow> s
          | Some l \<Rightarrow> l),
      CONFIG = Map.empty,
      Session_get = refuse\<rparr>"


section \<open>Facts about the request pipeline\<close>

lemma headers_fst: "fst (headers self w) = BASE_HEADERS"
  by (simp add: headers_def Let_def split: option.splits)

lemma headers_sent: "sent (snd (headers self w)) = sent w"
  by (simp add: headers_def Let_def split: option.splits)

lemma request_headers_sent: "sent (snd (request_headers self hdrs w)) = sent w"
  by (simp add: request_headers_def Let_def split_beta headers_sent split: option.splits)

text \<open>
  \<^verbatim>\<open>query\<close> in one equation: the method is applied to the URL and the merged headers,
  its answer is classified, and the request is appended to the requests made.
\<close>

lemma query_eq:
  "query X self path method hdrs w =
     (case (case method of None \<Rightarrow> session self | Some f \<Rightarrow> f) (sent w) (url self path)
             (fst (request_headers self hdrs w)) of
        Inl e \<Rightarrow> Inl e
      | Inr r \<Rightarrow> handle_response X r,
      (snd (request_headers self hdrs w))
        \<lparr>sent := sent w @ [(url self path, fst (request_headers self hdrs w))]\<rparr>)"
  by (simp add: query_def Let_def split_beta request_headers_sent split: sum.splits)

lemma query_sent:
  "sent (snd (query X self path method hdrs w)) =
     sent w @ [(url self path, fst (request_headers self hdrs w))]"
  by (simp add: query_eq)




lemma encode_utf8_ascii:
  "\<forall>c \<in> set s. (of_char c :: nat) < 128 \<Longrightarrow> encode_utf8 (ascii s) = Inr s"
  by (induction s) (auto simp: ascii_def encode_cp_def)

lemma ascii_Nil: "ascii [] = []"
  by (simp add: ascii_def)

section \<open>The claims\<close>

text \<open>
  C1. Every status other than 200 and 201 is said to raise \<open>BadRequest\<close> with the message
  \<^verbatim>\<open>(status) reason url\<close>. For a status that the status-code table does not list,
  \<^verbatim>\<open>codes.get(status)\<close> is \<^verbatim>\<open>None\<close> and the subscript raises \<open>TypeError\<close> before any
  \<open>BadRequest\<close> is built: here a server answers 520.
\<close>

theorem query_unlisted_status_TypeError:
  "fst (query ext0 (server_at None (respond 520 [])) ''/clients'' None None world0) = Inl TypeError"
  by (simp add: query_eq handle_response_def server_at_def respond_def respond_text_def ascii_Nil
        encode_utf8_ascii ext0_def)

text \<open>
  C2. With a token configured, \<^verbatim>\<open>url(path)\<close> is the base URL, the path, a separator and
  \<^verbatim>\<open>X-Plex-Token=<token>\<close>; the separator is \<^verbatim>\<open>&\<close> when the path already contains a
  \<^verbatim>\<open>?\<close> and \<^verbatim>\<open>?\<close> otherwise. With no token (\<^verbatim>\<open>None\<close> or the empty string), it is the
  base URL followed by the path and nothing else.
\<close>

theorem url_appends_token:
  assumes "baseurl self = Some b"
  shows "(token self = Some t \<and> t \<noteq> [] \<and> CHR ''?'' \<in> set path
            \<longrightarrow> url self path = b @ path @ ''&X-Plex-Token='' @ t)
       \<and> (token self = Some t \<and> t \<noteq> [] \<and> CHR ''?'' \<notin> set path
            \<longrightarrow> url self path = b @ path @ ''?X-Plex-Token='' @ t)
       \<and> (\<not> truthy (token self) \<longrightarrow> url self path = b @ path)"
  using assms by (simp add: url_def)

theorem url_appends_token_witness:
  "url (server_at (Some ''abc'') refuse) ''/search?query=HELLO''
     = ''http://localhost:32400/search?query=HELLO&X-Plex-Token=abc''
   \<and> url (server_at (Some ''abc'') refuse) ''/clients''
     = ''http://localhost:32400/clients?X-Plex-Token=abc''
   \<and> url (server_at None refuse) ''/clients'' = ''http://localhost:32400/clients''"
  using
    url_appends_token [of "server_at (Some ''abc'') refuse" "''http://localhost:32400''"
      "''abc''" "''/search?query=HELLO''"]
    url_appends_token [of "server_at (Some ''abc'') refuse" "''http://localhost:32400''"
      "''abc''" "''/clients''"]
    url_appends_token [of "server_at None refuse" "''http://localhost:32400''"
      "''abc''" "''/clients''"]
  by (simp add: server_at_def)

text \<open>
  C3 (as the claim states it). The claim names the error of a failed handshake a
  \<open>ConnectionFailure\<close> with the message \<^verbatim>\<open>no server found at <url>\<close>. With the connection
  refused, \<^verbatim>\<open>_connect\<close> raises \<open>NotFound\<close>, the class that a failed client lookup also
  raises, and the message is \<^verbatim>\<open>No server found at: <url>\<close>.
\<close>

theorem connect_failure_counterexample:
  "fst (connect ext0 (server_at None refuse) world0)
     = Inl (NotFound ''No server found at: http://localhost:32400'')
   \<and> class_name (NotFound ''No server found at: http://localhost:32400'') \<noteq> ''ConnectionFailure''
   \<and> class_name (NotFound ''No server found at: http://localhost:32400'')
       = class_name (NotFound ''Unknown client name: Nonexistent'')"
  by (simp add: connect_def query_eq server_at_def refuse_def split_beta)

text \<open>
  C3 (amended). Whatever exception the request for the root path ends in (a timeout, a
  refused connection, a status other than 200 and 201, a malformed body), \<^verbatim>\<open>_connect\<close>
  raises \<open>NotFound\<close> with the message \<^verbatim>\<open>No server found at: <baseurl>\<close>.
\<close>

theorem connect_failure_NotFound:
  assumes "fst (query X self ''/'' None None w) = Inl err"
  shows "fst (connect X self w)
           = Inl (NotFound (''No server found at: '' @ pct_s (baseurl self)))"
  using assms by (cases "query X self ''/'' None None w") (simp add: connect_def)

theorem connect_failure_NotFound_witness:
  "fst (connect ext0 (server_at None refuse) world0)
     = Inl (NotFound ''No server found at: http://localhost:32400'')
   \<and> fst (connect ext0 (server_at None (respond 500 [])) world0)
     = Inl (NotFound ''No server found at: http://localhost:32400'')
   \<and> fst (connect ext0 (server_at None (respond 200 ''<html>'')) world0)
     = Inl (NotFound ''No server found at: http://localhost:32400'')
   \<and> fst (connect ext0 (server_at None (\<lambda>hist u h. Inl Timeout)) world0)
     = Inl (NotFound ''No server found at: http://localhost:32400'')"
  using
    connect_failure_NotFound [of ext0 "server_at None refuse" world0 ConnectionError]
    connect_failure_NotFound [of ext0 "server_at None (respond 500 [])" world0
       "BadRequest ''(500) internal_server_error http://localhost:32400/''"]
    connect_failure_NotFound [of ext0 "server_at None (respond 200 ''<html>'')" world0 ParseError]
    connect_failure_NotFound [of ext0 "server_at None (\<lambda>hist u h. Inl Timeout)" world0 Timeout]
  by (simp add: query_eq handle_response_def server_at_def refuse_def respond_def respond_text_def ascii_Nil
        encode_utf8_ascii ext0_def
        url_def str_int_def str_nat.simps digit_char_def)




text \<open>
  C5 (as the claim states it). The claim lets no caller-supplied header replace the
  auth header. A caller that passes its own \<^verbatim>\<open>X-Plex-Token\<close> to a server whose token is
  \<^verbatim>\<open>SECRET\<close> has its value sent: \<^verbatim>\<open>h.update(headers)\<close> runs after the auth header is set.
\<close>
theorem caller_header_overrides_counterexample:
  "map (\<lambda>(u, h). (u, h ''X-Plex-Token''))
     (sent (snd (query ext0 (server_at (Some ''SECRET'') (respond 200 [])) ''/clients'' None
                (Some [''X-Plex-Token'' \<mapsto> ''other'']) world0)))
     = [(''http://localhost:32400/clients?X-Plex-Token=SECRET'', Some ''other'')]"
  by (simp add: query_sent request_headers_def headers_def server_at_def world0_def url_def
        BASE_HEADERS_def Let_def)

text \<open>The merged headers: the shared dictionary after \<^verbatim>\<open>headers()\<close>, overridden by the caller's.\<close>

lemma request_headers_fst:
  "fst (request_headers self hdrs w) =
     heap (snd (headers self w)) BASE_HEADERS ++ (case hdrs of None \<Rightarrow> Map.empty | Some d \<Rightarrow> d)"
  by (auto simp add: request_headers_def split_beta headers_fst Let_def split: option.splits)

text \<open>
  C5 (amended). The headers sent are the base headers, with the auth header when a token
  is configured, overridden by the caller's headers: a key the caller supplies carries
  the caller's value, the auth header's key included, and any other key carries the
  token (for \<^verbatim>\<open>X-Plex-Token\<close>, when configured) or the base value.
\<close>

theorem caller_headers_take_precedence:
  "sent (snd (query X self path method (Some d) w))
     = sent w @ [(url self path, fst (request_headers self (Some d) w))]
   \<and> (\<forall>k v. d k = Some v \<longrightarrow> fst (request_headers self (Some d) w) k = Some v)
   \<and> (\<forall>k. d k = None \<longrightarrow>
         fst (request_headers self (Some d) w) k
           = (if k = ''X-Plex-Token'' \<and> truthy (token self) then token self
              else heap w BASE_HEADERS k))"
  by (auto simp add: query_sent request_headers_fst headers_def Let_def map_add_def
      split: option.splits)

theorem caller_headers_take_precedence_witness:
  "fst (request_headers (server_at (Some ''SECRET'') refuse)
          (Some [''X-Plex-Token'' \<mapsto> ''other'']) world0) ''X-Plex-Token'' = Some ''other''
   \<and> fst (request_headers (server_at (Some ''SECRET'') refuse)
          (Some [''Accept'' \<mapsto> ''text/xml'']) world0) ''X-Plex-Token'' = Some ''SECRET''
   \<and> fst (request_headers (server_at (Some ''SECRET'') refuse)
          (Some [''Accept'' \<mapsto> ''text/xml'']) world0) ''X-Plex-Platform'' = Some ''Linux''"
  using
    caller_headers_take_precedence [of ext0 "server_at (Some ''SECRET'') refuse" "''/''" None
      "[''X-Plex-Token'' \<mapsto> ''other'']" world0]
    caller_headers_take_precedence [of ext0 "server_at (Some ''SECRET'') refuse" "''/''" None
      "[''Accept'' \<mapsto> ''text/xml'']" world0]
  by (simp add: server_at_def world0_def BASE_HEADERS_def)

text \<open>When every element has a host and a port, the loop builds one descriptor for each.\<close>

lemma clients_loop_map:
  "\<forall>e \<in> set es. attrib e ''host'' \<noteq> None \<and> attrib e ''port'' \<noteq> None \<Longrightarrow>
   clients_loop es items =
     Inr (items @ map (\<lambda>e. PlexClient (''http://'' @ the (attrib e ''host'') @ '':''
                                        @ the (attrib e ''port'')) e) es)"
  by (induction es arbitrary: items) (auto simp: make_client_def)

text \<open>\<^verbatim>\<open>clients()\<close> hands exactly one request to the session, for \<^verbatim>\<open>/clients\<close>.\<close>

lemma clients_sent:
  "sent (snd (clients X self w))
     = sent w @ [(url self ''/clients'', fst (request_headers self None w))]"
  using query_sent [of X self "''/clients''" None None w]
  by (cases "query X self ''/clients'' None None w")
     (auto simp: clients_def split: sum.splits option.splits)

text \<open>
  C6. Once an access to \<^verbatim>\<open>library\<close> has returned a library, every later access, in
  whatever state the process is by then, returns that same library and leaves the
  server and the requests made as they are: no request is issued. Every call to
  \<^verbatim>\<open>clients()\<close> appends one request for \<^verbatim>\<open>/clients\<close> to the requests made; and when the
  listing is returned and each of its elements has a host and a port, the result holds
  one descriptor per element, in order, whose base URL is \<^verbatim>\<open>http://<host>:<port>\<close> of that
  element (the server's own base URL plays no part).
\<close>
theorem library_cached_clients_fresh:
  "(library X self w = (Inr lib, self', w') \<longrightarrow>
      library X self' w'' = (Inr lib, self', w''))
   \<and> sent (snd (clients X self w))
       = sent w @ [(url self ''/clients'', fst (request_headers self None w))]
   \<and> (fst (query X self ''/clients'' None None w) = Inr (Some root)
       \<and> (\<forall>e \<in> set (children root). attrib e ''host'' \<noteq> None \<and> attrib e ''port'' \<noteq> None)
       \<longrightarrow> fst (clients X self w)
             = Inr (map (\<lambda>e. PlexClient (''http://'' @ the (attrib e ''host'') @ '':''
                                          @ the (attrib e ''port'')) e) (children root)))"
proof (intro conjI impI)
  assume a: "library X self w = (Inr lib, self', w')"
  show "library X self' w'' = (Inr lib, self', w'')"
  proof (cases "library_cache self")
    case None
    with a have "library_cache self' = Some lib"
      by (cases "query X self ''/library/'' None None w")
         (auto simp: library_def Let_def split: sum.splits)
    then show ?thesis by (simp add: library_def)
  next
    case (Some l)
    with a have "self' = self" "lib = l" by (simp_all add: library_def)
    with Some show ?thesis by (simp add: library_def)
  qed
next
  show "sent (snd (clients X self w))
       = sent w @ [(url self ''/clients'', fst (request_headers self None w))]"
    by (rule clients_sent)
next
  assume "fst (query X self ''/clients'' None None w) = Inr (Some root)
       \<and> (\<forall>e \<in> set (children root). attrib e ''host'' \<noteq> None \<and> attrib e ''port'' \<noteq> None)"
  then show "fst (clients X self w)
             = Inr (map (\<lambda>e. PlexClient (''http://'' @ the (attrib e ''host'') @ '':''
                                          @ the (attrib e ''port'')) e) (children root))"
    using clients_loop_map [of "children root" "[]"]
    by (cases "query X self ''/clients'' None None w") (auto simp: clients_def)
qed

theorem library_cached_clients_fresh_witness:
  "fst (library ext0 (server_at None (respond 200 ''<root/>'')) world0)
     = Inr (Library (Some root_elem))
   \<and> fst (library ext0 (fst (snd (library ext0 (server_at None (respond 200 ''<root/>'')) world0)))
         world0)
       = Inr (Library (Some root_elem))
   \<and> sent (snd (snd (library ext0
         (fst (snd (library ext0 (server_at None (respond 200 ''<root/>'')) world0))) world0)))
       = []
   \<and> map fst (sent (snd (clients ext0 (server_at None (respond 200 ''<clients/>''))
          (snd (clients ext0 (server_at None (respond 200 ''<clients/>'')) world0)))))
       = [''http://localhost:32400/clients'', ''http://localhost:32400/clients'']
   \<and> fst (clients ext0 (server_at None (respond 200 ''<clients/>'')) world0)
       = Inr [PlexClient ''http://10.0.0.7:3005'' elem_tv,
              PlexClient ''http://10.0.0.5:32500'' elem_bob]"
proof -
  let ?S = "server_at None (respond 200 ''<root/>'')"
  let ?C = "server_at None (respond 200 ''<clients/>'')"
  let ?root = "Element ''MediaContainer'' Map.empty [elem_tv, elem_bob]"
  obtain r s1 w1 where L: "library ext0 ?S world0 = (r, s1, w1)"
    by (cases "library ext0 ?S world0") auto
  have r: "r = Inr (Library (Some root_elem))"
    using L by (auto simp add: library_def query_eq handle_response_def server_at_def
        respond_def respond_text_def ascii_Nil
        encode_utf8_ascii ext0_def Let_def)
  have "library ext0 s1 world0 = (Inr (Library (Some root_elem)), s1, world0)"
    using library_cached_clients_fresh [of ext0 ?S world0 "Library (Some root_elem)" s1 w1
        world0 ?root] L r
    by simp
  moreover have "sent world0 = []"
    by (simp add: world0_def)
  moreover have q: "fst (query ext0 ?C ''/clients'' None None world0) = Inr (Some ?root)"
    by (simp add: query_eq handle_response_def server_at_def respond_def respond_text_def ascii_Nil
        encode_utf8_ascii ext0_def)
  have "fst (clients ext0 ?C world0)
       = Inr [PlexClient ''http://10.0.0.7:3005'' elem_tv,
              PlexClient ''http://10.0.0.5:32500'' elem_bob]"
    using library_cached_clients_fresh [of ext0 ?C world0 "Library None" ?C world0 world0 ?root] q
    by (simp add: elem_tv_def elem_bob_def)
  moreover have "map fst (sent (snd (clients ext0 ?C (snd (clients ext0 ?C world0)))))
       = [''http://localhost:32400/clients'', ''http://localhost:32400/clients'']"
    using
      library_cached_clients_fresh [of ext0 ?C world0 "Library None" ?C world0 world0 ?root]
      library_cached_clients_fresh [of ext0 ?C "snd (clients ext0 ?C world0)" "Library None"
        ?C world0 world0 ?root]
    by (simp add: world0_def url_def server_at_def)
  ultimately show ?thesis
    using L r by simp
qed




text \<open>
  C8 (as the claim states it). The claim has no missing attribute cause a failure. A
  client listing with an element that has no \<^verbatim>\<open>host\<close> attribute makes \<^verbatim>\<open>clients()\<close> raise
  \<open>KeyError\<close>: the host and the port are read by subscript.
\<close>

theorem clients_missing_host_counterexample:
  "attrib elem_nohost ''host'' = None
   \<and> fst (clients ext0 (server_at None (respond 200 ''<broken/>'')) world0) = Inl (KeyError ''host'')"
  by (simp add: clients_def query_eq handle_response_def server_at_def respond_def respond_text_def ascii_Nil
        encode_utf8_ascii ext0_def
        make_client_def elem_tv_def elem_nohost_def)

text \<open>
  C8 (amended). The attribute reads of the constructor never fail on a missing
  attribute: they succeed when the two numeric attributes are missing; each string
  field is the attribute or \<^verbatim>\<open>None\<close>, \<^verbatim>\<open>myPlex\<close> is the attribute's truthiness, and a
  missing \<^verbatim>\<open>transcoderActiveVideoSessions\<close> or \<^verbatim>\<open>updatedAt\<close> gives 0; the only failure is
  \<^verbatim>\<open>int\<close> of a numeric attribute that is present. A client descriptor needs the \<^verbatim>\<open>host\<close>
  and \<^verbatim>\<open>port\<close> attributes: without one of them, building it raises \<open>KeyError\<close>.
\<close>

theorem load_attributes_missing:
  "(attrib data ''transcoderActiveVideoSessions'' = None \<and> attrib data ''updatedAt'' = None
      \<longrightarrow> (\<exists>s. load_attributes X self data = Inr s))
   \<and> (load_attributes X self data = Inr s \<longrightarrow>
        friendlyName s = attrib data ''friendlyName''
        \<and> machineIdentifier s = attrib data ''machineIdentifier''
        \<and> myPlex s = truthy (attrib data ''myPlex'')
        \<and> myPlexMappingState s = attrib data ''myPlexMappingState''
        \<and> myPlexSigninState s = attrib data ''myPlexSigninState''
        \<and> myPlexSubscription s = attrib data ''myPlexSubscription''
        \<and> myPlexUsername s = attrib data ''myPlexUsername''
        \<and> platform s = attrib data ''platform''
        \<and> platformVersion s = attrib data ''platformVersion''
        \<and> version s = attrib data ''version''
        \<and> (attrib data ''transcoderActiveVideoSessions'' = None
              \<longrightarrow> transcoderActiveVideoSessions s = 0)
        \<and> (attrib data ''updatedAt'' = None \<longrightarrow> updatedAt s = 0))
   \<and> (load_attributes X self data = Inl e \<longrightarrow>
        (\<exists>v. attrib data ''transcoderActiveVideoSessions'' = Some v \<and> int_of_str X v = Inl e)
        \<or> (\<exists>v. attrib data ''updatedAt'' = Some v \<and> int_of_str X v = Inl e))
   \<and> (attrib elem ''host'' = None \<longrightarrow> make_client elem = Inl (KeyError ''host''))
   \<and> (attrib elem ''host'' \<noteq> None \<and> attrib elem ''port'' = None
        \<longrightarrow> make_client elem = Inl (KeyError ''port''))"
proof (intro conjI)
  show "attrib data ''transcoderActiveVideoSessions'' = None \<and> attrib data ''updatedAt'' = None
      \<longrightarrow> (\<exists>s. load_attributes X self data = Inr s)"
    by (simp add: load_attributes_def)
  show "load_attributes X self data = Inl e \<longrightarrow>
        (\<exists>v. attrib data ''transcoderActiveVideoSessions'' = Some v \<and> int_of_str X v = Inl e)
        \<or> (\<exists>v. attrib data ''updatedAt'' = Some v \<and> int_of_str X v = Inl e)"
    by (auto simp add: load_attributes_def split: option.splits sum.splits)
  show "attrib elem ''host'' = None \<longrightarrow> make_client elem = Inl (KeyError ''host'')"
    by (simp add: make_client_def)
  show "attrib elem ''host'' \<noteq> None \<and> attrib elem ''port'' = None
        \<longrightarrow> make_client elem = Inl (KeyError ''port'')"
    by (auto simp add: make_client_def)
  show "load_attributes X self data = Inr s \<longrightarrow>
        friendlyName s = attrib data ''friendlyName''
        \<and> machineIdentifier s = attrib data ''machineIdentifier''
        \<and> myPlex s = truthy (attrib data ''myPlex'')
        \<and> myPlexMappingState s = attrib data ''myPlexMappingState''
        \<and> myPlexSigninState s = attrib data ''myPlexSigninState''
        \<and> myPlexSubscription s = attrib data ''myPlexSubscription''
        \<and> myPlexUsername s = attrib data ''myPlexUsername''
        \<and> platform s = attrib data ''platform''
        \<and> platformVersion s = attrib data ''platformVersion''
        \<and> version s = attrib data ''version''
        \<and> (attrib data ''transcoderActiveVideoSessions'' = None
              \<longrightarrow> transcoderActiveVideoSessions s = 0)
        \<and> (attrib data ''updatedAt'' = None \<longrightarrow> updatedAt s = 0)"
  proof
    assume a: "load_attributes X self data = Inr s"
    then obtain n u where s: "s = self\<lparr>friendlyName := attrib data ''friendlyName'',
                          machineIdentifier := attrib data ''machineIdentifier'',
                          myPlex := truthy (attrib data ''myPlex''),
                          myPlexMappingState := attrib data ''myPlexMappingState'',
                          myPlexSigninState := attrib data ''myPlexSigninState'',
                          myPlexSubscription := attrib data ''myPlexSubscription'',
                          myPlexUsername := attrib data ''myPlexUsername'',
                          platform := attrib data ''platform'',
                          platformVersion := attrib data ''platformVersion'',
                          transcoderActiveVideoSessions := n,
                          updatedAt := u,
                          version := attrib data ''version'',
                          library_cache := None\<rparr>"
      and n: "attrib data ''transcoderActiveVideoSessions'' = None \<longrightarrow> n = 0"
      and u: "attrib data ''updatedAt'' = None \<longrightarrow> u = 0"
      unfolding load_attributes_def by (auto split: sum.splits option.splits)
    show "friendlyName s = attrib data ''friendlyName''
        \<and> machineIdentifier s = attrib data ''machineIdentifier''
        \<and> myPlex s = truthy (attrib data ''myPlex'')
        \<and> myPlexMappingState s = attrib data ''myPlexMappingState''
        \<and> myPlexSigninState s = attrib data ''myPlexSigninState''
        \<and> myPlexSubscription s = attrib data ''myPlexSubscription''
        \<and> myPlexUsername s = attrib data ''myPlexUsername''
        \<and> platform s = attrib data ''platform''
        \<and> platformVersion s = attrib data ''platformVersion''
        \<and> version s = attrib data ''version''
        \<and> (attrib data ''transcoderActiveVideoSessions'' = None
              \<longrightarrow> transcoderActiveVideoSessions s = 0)
        \<and> (attrib data ''updatedAt'' = None \<longrightarrow> updatedAt s = 0)"
      using n u by (simp add: s)
  qed
qed

theorem load_attributes_missing_witness:
  "attrib root_elem ''transcoderActiveVideoSessions'' = None
   \<and> attrib root_elem ''platform'' = None
   \<and> (case fst (PlexServer_init ext0 (Some ''http://localhost:32400'') None
                  (Some (respond 200 ''<root/>'')) world0) of
        Inl e \<Rightarrow> False
      | Inr s \<Rightarrow> transcoderActiveVideoSessions s = 0 \<and> updatedAt s = 0
                 \<and> platform s = None \<and> friendlyName s = Some ''s-PC'' \<and> myPlex s = False)
   \<and> make_client elem_nohost = Inl (KeyError ''host'')"
proof -
  let ?self = "\<lparr>baseurl = Some ''http://localhost:32400'', token = None,
                 session = respond 200 ''<root/>'',
                  friendlyName = None, machineIdentifier = None, myPlex = False,
                  myPlexMappingState = None, myPlexSigninState = None,
                  myPlexSubscription = None, myPlexUsername = None, platform = None,
                  platformVersion = None, transcoderActiveVideoSessions = 0,
                  updatedAt = 0, version = None, library_cache = None\<rparr>"
  have i: "fst (PlexServer_init ext0 (Some ''http://localhost:32400'') None
                  (Some (respond 200 ''<root/>'')) world0) = load_attributes ext0 ?self root_elem"
    by (simp add: PlexServer_init_def Let_def connect_def query_eq handle_response_def respond_def respond_text_def ascii_Nil
        encode_utf8_ascii
          ext0_def py_or_def)
  have m: "attrib root_elem ''transcoderActiveVideoSessions'' = None"
    "attrib root_elem ''updatedAt'' = None" "attrib root_elem ''platform'' = None"
    "attrib root_elem ''friendlyName'' = Some ''s-PC''" "attrib root_elem ''myPlex'' = None"
    "attrib elem_nohost ''host'' = None"
    by (simp_all add: root_elem_def elem_nohost_def)
  obtain s where s: "load_attributes ext0 ?self root_elem = Inr s"
    using load_attributes_missing [of root_elem ext0 ?self ?self ValueError elem_nohost] m
    by auto
  show ?thesis
    using load_attributes_missing [of root_elem ext0 ?self s ValueError elem_nohost] m s i
    by simp
qed

text \<open>
  C9. \<^verbatim>\<open>client(name)\<close> is said to return the first entry whose name matches without
  regard to case and to raise \<open>NotFound\<close> when none matches. Line 136 calls \<^verbatim>\<open>.lower()\<close>
  on \<^verbatim>\<open>elem.attrib.get('name')\<close>, which is \<^verbatim>\<open>None\<close> for an entry without a name: in a
  listing of \<open>tv\<close>, a nameless entry and \<open>BOB\<close>, the scan raises \<open>AttributeError\<close> at the
  nameless entry, both for a name that no entry has and for \<open>Bob\<close>, which the third
  entry matches.
\<close>

theorem client_nameless_entry_AttributeError:
  "fst (client ext0 (server_at None (respond 200 ''<nameless/>'')) ''Nonexistent'' world0)
     = Inl AttributeError
   \<and> fst (client ext0 (server_at None (respond 200 ''<nameless/>'')) ''Bob'' world0)
     = Inl AttributeError"
  by (simp add: client_def query_eq handle_response_def server_at_def respond_def
        respond_text_def ext0_def encode_utf8_ascii elem_tv_def elem_noname_def)

text \<open>
  C10. \<^verbatim>\<open>headers()\<close> returns the \<^verbatim>\<open>BASE_HEADERS\<close> object itself. With a token configured it
  writes \<^verbatim>\<open>X-Plex-Token\<close> into that object, and from then on the dictionary that
  \<^verbatim>\<open>headers()\<close> returns to any server without a token, and the headers such a server
  sends, hold the first server's token.
\<close>
theorem headers_mutates_BASE_HEADERS:
  "fst (headers self w) = BASE_HEADERS
   \<and> (token self = Some t \<and> t \<noteq> [] \<longrightarrow>
        heap (snd (headers self w)) BASE_HEADERS = (heap w BASE_HEADERS)(''X-Plex-Token'' \<mapsto> t)
        \<and> (\<forall>other. \<not> truthy (token other) \<longrightarrow>
              heap (snd (headers other (snd (headers self w)))) (fst (headers other (snd (headers self w))))
                ''X-Plex-Token'' = Some t
              \<and> fst (request_headers other None (snd (headers self w))) ''X-Plex-Token'' = Some t))"
  by (auto simp add: headers_def request_headers_def Let_def split: option.splits)

theorem headers_mutates_BASE_HEADERS_witness:
  "heap world0 BASE_HEADERS ''X-Plex-Token'' = None
   \<and> heap (snd (headers (server_at (Some ''SECRET'') refuse) world0)) BASE_HEADERS ''X-Plex-Token''
       = Some ''SECRET''
   \<and> fst (request_headers (server_at None refuse) None
            (snd (headers (server_at (Some ''SECRET'') refuse) world0))) ''X-Plex-Token''
       = Some ''SECRET''"
  using headers_mutates_BASE_HEADERS [of "server_at (Some ''SECRET'') refuse" world0 "''SECRET''"]
  by (simp add: server_at_def world0_def)

end
